theory Spec2Isabelle
  imports Complex_Main "HOL-Library.FSet" "HOL-Library.AList"
begin

section \<open>Python values used by \<^verbatim>\<open>obspy/io/hypodd/pha.py\<close>\<close>

text \<open>
  A Python \<^verbatim>\<open>str\<close> is modelled as a \<^typ>\<open>string\<close>: a list of characters, each
  read as the code point of the same number (U+0000 to U+00FF).  Exceptions are values
  of the type \<open>error\<close>; a function that can raise returns \<open>error + 'a\<close>, with
  \<open>Inl\<close> for the exception.
\<close>

datatype error =
    ValueError string
  | IndexError
  | AssertionError
  | FileNotFoundError
  | ZeroDivisionError
  | TypeError
  | AttributeError

text \<open>
  \<^verbatim>\<open>str.isdigit()\<close>: the string is not empty and every character is a digit.  Among
  the code points below 256 Python counts as digits the decimal digits \<^verbatim>\<open>0\<close> to
  \<^verbatim>\<open>9\<close> and the superscript digits U+00B2, U+00B3 and U+00B9.
\<close>

definition isdigit_char :: "char \<Rightarrow> bool" where
  "isdigit_char c =
     (let n = (of_char c :: nat)
      in (48 \<le> n \<and> n \<le> 57) \<or> n = 178 \<or> n = 179 \<or> n = 185)"

definition isdigit :: "string \<Rightarrow> bool" where
  "isdigit s = (s \<noteq> [] \<and> list_all isdigit_char s)"

text \<open>\<^verbatim>\<open>str(n)\<close> for an integer: decimal digits, most significant first, with a
  leading minus sign for a negative number.\<close>

definition digit_char :: "nat \<Rightarrow> char" where
  "digit_char d = char_of (48 + d)"

fun str_nat :: "nat \<Rightarrow> string" where
  "str_nat n =
     (if n < 10 then [digit_char n] else str_nat (n div 10) @ [digit_char (n mod 10)])"

declare str_nat.simps [simp del]

definition str_int :: "int \<Rightarrow> string" where
  "str_int i = (if i < 0 then CHR ''-'' # str_nat (nat (- i)) else str_nat (nat i))"

lemma digit_char_simps:
  "digit_char 0 = CHR ''0''" "digit_char 1 = CHR ''1''" "digit_char 2 = CHR ''2''"
  "digit_char 3 = CHR ''3''" "digit_char 4 = CHR ''4''" "digit_char 5 = CHR ''5''"
  "digit_char 6 = CHR ''6''" "digit_char 7 = CHR ''7''" "digit_char 8 = CHR ''8''"
  "digit_char 9 = CHR ''9''" "digit_char (Suc 0) = CHR ''1''"
  by code_simp+

text \<open>\<open>str_nat\<close> has a left inverse, so it is injective.\<close>

definition digit_val :: "char \<Rightarrow> nat" where
  "digit_val c = of_char c - 48"

definition nat_of_str :: "string \<Rightarrow> nat" where
  "nat_of_str s = foldl (\<lambda>a c. 10 * a + digit_val c) 0 s"

lemma digit_val_digit_char: "d < 10 \<Longrightarrow> digit_val (digit_char d) = d"
  by (simp add: digit_val_def digit_char_def)

lemma nat_of_str_nat: "nat_of_str (str_nat n) = n"
proof (induction n rule: str_nat.induct)
  case (1 n)
  show ?case
  proof (cases "n < 10")
    case True
    then show ?thesis
      by (simp add: str_nat.simps[of n] nat_of_str_def digit_val_digit_char)
  next
    case False
    with 1 have "nat_of_str (str_nat (n div 10)) = n div 10" by simp
    with False show ?thesis
      by (simp add: str_nat.simps[of n] nat_of_str_def digit_val_digit_char)
  qed
qed

lemma str_nat_inj: "str_nat a = str_nat b \<Longrightarrow> a = b"
  by (metis nat_of_str_nat)

lemma isdigit_char_digit_char: "d < 10 \<Longrightarrow> isdigit_char (digit_char d)"
  by (simp add: isdigit_char_def digit_char_def Let_def)

lemma str_nat_digits: "list_all isdigit_char (str_nat n)"
proof (induction n rule: str_nat.induct)
  case (1 n)
  then show ?case
    by (cases "n < 10") (simp_all add: str_nat.simps[of n] isdigit_char_digit_char)
qed

lemma str_nat_nonempty: "str_nat n \<noteq> []"
  by (simp add: str_nat.simps[of n])

lemma str_nat_hd_digit: "hd (str_nat n) \<noteq> CHR ''-''"
proof -
  have "list_all isdigit_char (str_nat n)" by (rule str_nat_digits)
  then have "isdigit_char (hd (str_nat n))"
    using str_nat_nonempty[of n] by (cases "str_nat n") simp_all
  moreover have "\<not> isdigit_char CHR ''-''" by (simp add: isdigit_char_def)
  ultimately show ?thesis by auto
qed

lemma str_int_hd: "hd (str_int a) = CHR ''-'' \<longleftrightarrow> a < 0"
  by (simp add: str_int_def str_nat_hd_digit)

lemma str_int_inj: "str_int a = str_int b \<Longrightarrow> a = b"
proof -
  assume eq: "str_int a = str_int b"
  then have sgn: "a < 0 \<longleftrightarrow> b < 0"
    using str_int_hd[of a] str_int_hd[of b] by simp
  show ?thesis
  proof (cases "a < 0")
    case True
    with sgn eq have "str_nat (nat (- a)) = str_nat (nat (- b))" by (simp add: str_int_def)
    then have "nat (- a) = nat (- b)" by (rule str_nat_inj)
    with True sgn show ?thesis by simp
  next
    case False
    with sgn eq have "str_nat (nat a) = str_nat (nat b)" by (simp add: str_int_def)
    then have "nat a = nat b" by (rule str_nat_inj)
    with False sgn show ?thesis by simp
  qed
qed

lemma str_int_nonempty: "str_int c \<noteq> []"
  by (simp add: str_int_def str_nat_nonempty)

lemma str_nat_length: "n < 10 ^ k \<Longrightarrow> 0 < k \<Longrightarrow> length (str_nat n) \<le> k"
proof (induction n arbitrary: k rule: str_nat.induct)
  case (1 n)
  show ?case
  proof (cases "n < 10")
    case True
    then show ?thesis using 1(3) by (simp add: str_nat.simps[of n])
  next
    case False
    then obtain k' where k: "k = Suc k'" using 1(3) by (cases k) auto
    have "k' > 0" using False 1(2) k by (cases k') auto
    moreover have "n div 10 < 10 ^ k'"
      using 1(2) k by (simp add: less_mult_imp_div_less mult.commute)
    ultimately have "length (str_nat (n div 10)) \<le> k'" using 1(1) False by blast
    then show ?thesis using False k by (simp add: str_nat.simps[of n])
  qed
qed

section \<open>The identifier canonicalizer \<^verbatim>\<open>_map_eventid\<close>\<close>

text \<open>
  The three mutable arguments of \<^verbatim>\<open>_map_eventid\<close> (the dict \<^verbatim>\<open>eventid_map\<close>, the set
  \<^verbatim>\<open>used_ids\<close> and the one-element list \<^verbatim>\<open>counter\<close>) form the state of a write
  session.  The dict is an association list in insertion order; the function returns
  the state it leaves behind.
\<close>

record session =
  eventid_map :: "(string \<times> string) list"
  used_ids :: "string fset"
  counter :: int

text \<open>
  The loop \<^verbatim>\<open>while idpha == '' or idpha in used_ids: idpha = str(counter[0]);
  counter[0] += 1\<close>, returning the final \<^verbatim>\<open>idpha\<close> and counter.
\<close>

function next_unused :: "string \<Rightarrow> string fset \<Rightarrow> int \<Rightarrow> string \<times> int" where
  "next_unused idpha used c =
     (if idpha = [] \<or> idpha |\<in>| used then next_unused (str_int c) used (c + 1)
      else (idpha, c))"
  by pat_completeness auto

text \<open>
  The loop ends: \<open>str_int\<close> is injective and \<open>used\<close> is finite, so only finitely many
  counter values from \<open>c\<close> on are in \<open>used\<close>.
\<close>

definition pending :: "string fset \<Rightarrow> int \<Rightarrow> nat" where
  "pending used c = card {n. c \<le> n \<and> str_int n |\<in>| used}"

lemma finite_str_int_vimage: "finite {n. str_int n |\<in>| used}"
proof -
  have "inj str_int" by (rule injI) (rule str_int_inj)
  then have "finite (str_int -` fset used)" by (simp add: finite_vimageI)
  then show ?thesis by (simp add: vimage_def)
qed

lemma pending_step_in:
  assumes "str_int c |\<in>| used"
  shows "pending used (c + 1) < pending used c"
proof -
  have fin: "finite {n. c \<le> n \<and> str_int n |\<in>| used}"
    by (rule finite_subset[OF _ finite_str_int_vimage[of used]]) auto
  have "c \<in> {n. c \<le> n \<and> str_int n |\<in>| used}"
    using assms by simp
  moreover have "c \<notin> {n. c + 1 \<le> n \<and> str_int n |\<in>| used}"
    by simp
  moreover have
    "{n. c + 1 \<le> n \<and> str_int n |\<in>| used} \<subseteq> {n. c \<le> n \<and> str_int n |\<in>| used}"
    by auto
  ultimately have
    "{n. c + 1 \<le> n \<and> str_int n |\<in>| used} \<subset> {n. c \<le> n \<and> str_int n |\<in>| used}"
    by blast
  then show ?thesis unfolding pending_def by (rule psubset_card_mono[OF fin])
qed

lemma pending_step_le: "pending used (c + 1) \<le> pending used c"
proof -
  have fin: "finite {n. c \<le> n \<and> str_int n |\<in>| used}"
    by (rule finite_subset[OF _ finite_str_int_vimage[of used]]) auto
  have "{n. c + 1 \<le> n \<and> str_int n |\<in>| used} \<subseteq> {n. c \<le> n \<and> str_int n |\<in>| used}"
    by auto
  then show ?thesis unfolding pending_def by (rule card_mono[OF fin])
qed

termination next_unused
proof (relation "measure (\<lambda>(idpha, used, c).
          2 * pending used c + (if idpha = [] \<or> idpha |\<in>| used then 1 else 0))")
  show "wf (measure (\<lambda>(idpha, used, c).
          2 * pending used c + (if idpha = [] \<or> idpha |\<in>| used then 1 else 0)))"
    by simp
next
  fix idpha :: string and used :: "string fset" and c :: int
  assume bad: "idpha = [] \<or> idpha |\<in>| used"
  show "((str_int c, used, c + 1), (idpha, used, c)) \<in> measure (\<lambda>(idpha, used, c).
          2 * pending used c + (if idpha = [] \<or> idpha |\<in>| used then 1 else 0))"
  proof (cases "str_int c |\<in>| used")
    case True
    from pending_step_in[OF True] show ?thesis using bad by auto
  next
    case False
    with pending_step_le[of used c] show ?thesis using bad by (auto simp: str_int_nonempty)
  qed
qed

declare next_unused.simps [simp del]

text \<open>
  \<^verbatim>\<open>_map_eventid\<close> has two return statements of different shape: the branch of a
  forced mapping returns the string \<^verbatim>\<open>idpha\<close> alone (line 161), the other branch
  returns the pair \<^verbatim>\<open>idpha, eventid_map\<close> (line 172).
\<close>

datatype map_ret =
    RetId string
  | RetPair string "(string \<times> string) list"

definition invalid_msg :: string where
  "invalid_msg =
     ''Invalid value in eventid_map, pha event id has to be digit with max 9 digits''"

definition map_eventid :: "string \<Rightarrow> session \<Rightarrow> error + (map_ret \<times> session)" where
  "map_eventid evid st =
     (case map_of (eventid_map st) evid of
        Some idpha \<Rightarrow>
          if \<not> isdigit idpha \<or> length idpha > 9 then Inl (ValueError invalid_msg)
          else Inr (RetId idpha, st)
      | None \<Rightarrow>
          (let idpha1 = (if \<not> isdigit evid then filter isdigit_char evid else evid);
               idpha2 = (if length idpha1 > 9 then take 9 idpha1 else idpha1);
               (idpha, c) = next_unused idpha2 (used_ids st) (counter st);
               m = (if idpha \<noteq> evid then AList.update evid idpha (eventid_map st)
                    else eventid_map st)
           in Inr (RetPair idpha m,
                   \<lparr>eventid_map = m, used_ids = finsert idpha (used_ids st), counter = c\<rparr>)))"

text \<open>
  The state \<^verbatim>\<open>_write_pha\<close> builds when it is called without a remap table:
  \<^verbatim>\<open>({}, set(), [1000])\<close>.
\<close>

definition initial_session :: session where
  "initial_session = \<lparr>eventid_map = [], used_ids = {||}, counter = 1000\<rparr>"

section \<open>The event data model and the library\<close>

text \<open>
  The classes of \<^verbatim>\<open>obspy.core.event\<close> are records with the attributes \<^verbatim>\<open>pha.py\<close>
  reads and writes.  An attribute that may be \<^verbatim>\<open>None\<close> is an option.  The attributes
  \<^verbatim>\<open>latitude_errors\<close>, \<^verbatim>\<open>longitude_errors\<close> and \<^verbatim>\<open>depth_errors\<close> hold the
  \<^verbatim>\<open>uncertainty\<close> of the \<^verbatim>\<open>QuantityError\<close>.  A \<^verbatim>\<open>float\<close> is the real number it
  denotes: arithmetic is exact, and the floats \<^verbatim>\<open>inf\<close> and \<^verbatim>\<open>nan\<close> have no
  counterpart.  A pick keeps the seed string its \<^verbatim>\<open>WaveformStreamID\<close> was built from.
\<close>

record 't pick =
  p_resource_id :: string
  p_waveform_id :: "string option"
  p_phase_hint :: "string option"
  p_time :: "'t option"

record arrival =
  a_phase :: string
  pick_id :: string
  time_weight :: "real option"

record origin_quality =
  associated_phase_count :: nat
  standard_error :: "real option"

record 't origin =
  o_resource_id :: string
  o_time :: "'t option"
  latitude :: "real option"
  longitude :: "real option"
  depth :: "real option"
  latitude_errors :: "real option"
  longitude_errors :: "real option"
  depth_errors :: "real option"
  quality :: "origin_quality option"
  arrivals :: "arrival list"

record magnitude =
  m_resource_id :: string
  mag :: "real option"

record 't event =
  e_resource_id :: string
  picks :: "'t pick list"
  origins :: "'t origin list"
  magnitudes :: "magnitude list"
  preferred_origin_id :: "string option"
  preferred_magnitude_id :: "string option"

text \<open>
  What \<^verbatim>\<open>pha.py\<close> calls and does not define is a parameter of the model, the record
  \<open>lib\<close>: the builtins \<^verbatim>\<open>int\<close> and \<^verbatim>\<open>float\<close> on a token, the constructor
  \<^verbatim>\<open>UTCDateTime(year, month, day, hour, minute, second, strict=False)\<close> with the
  sum and difference of times, \<^verbatim>\<open>template.format(sta, comp)\<close>, the station code
  of a \<^verbatim>\<open>WaveformStreamID\<close> built from a seed string, and the generator of
  resource identifiers (the identifier of the \<open>n\<close>-th object created).  The type
  \<open>'t\<close> is that of a \<^verbatim>\<open>UTCDateTime\<close>.
\<close>

record 't lib =
  py_int :: "string \<Rightarrow> error + int"
  py_float :: "string \<Rightarrow> error + real"
  utcdatetime :: "int \<Rightarrow> int \<Rightarrow> int \<Rightarrow> int \<Rightarrow> int \<Rightarrow> real \<Rightarrow> error + 't"
  utc_add :: "'t \<Rightarrow> real \<Rightarrow> 't"
  utc_sub :: "'t \<Rightarrow> 't \<Rightarrow> real"
  format_seed :: "string \<Rightarrow> string \<Rightarrow> string \<Rightarrow> error + string"
  station_code :: "string \<Rightarrow> string option"
  new_resource_id :: "nat \<Rightarrow> string"

definition DEG2KM :: real where
  "DEG2KM = 111.2"

definition deg2rad :: "real \<Rightarrow> real" where
  "deg2rad x = x * pi / 180"

text \<open>\<^verbatim>\<open>s.split(sep)\<close> for a one-character separator: empty pieces are kept.\<close>

fun split_on :: "char \<Rightarrow> string \<Rightarrow> string list" where
  "split_on sep [] = [[]]"
| "split_on sep (c # cs) =
     (if c = sep then [] # split_on sep cs
      else (case split_on sep cs of
              [] \<Rightarrow> [[c]]
            | piece # pieces \<Rightarrow> (c # piece) # pieces))"

text \<open>
  Modelled from the spec: the methods \<^verbatim>\<open>Event.preferred_origin()\<close> and
  \<^verbatim>\<open>Event.preferred_magnitude()\<close> of the event class, which is not part of these
  sources.  They return the origin (magnitude) of the event that the preferred
  identifier names, or \<^verbatim>\<open>None\<close>.
\<close>

definition preferred_origin :: "'t event \<Rightarrow> 't origin option" where
  "preferred_origin e =
     (case preferred_origin_id e of
        None \<Rightarrow> None
      | Some rid \<Rightarrow> find (\<lambda>ori. o_resource_id ori = rid) (origins e))"

definition preferred_magnitude :: "'t event \<Rightarrow> magnitude option" where
  "preferred_magnitude e =
     (case preferred_magnitude_id e of
        None \<Rightarrow> None
      | Some rid \<Rightarrow> find (\<lambda>m. m_resource_id m = rid) (magnitudes e))"

section \<open>The writer \<^verbatim>\<open>_write_pha\<close>\<close>

text \<open>
  A line of the output is kept as the arguments \<^verbatim>\<open>PHA1.format\<close> and
  \<^verbatim>\<open>PHA2.format\<close> render: the origin time, latitude, longitude, depth in km,
  magnitude, \<^verbatim>\<open>he\<close>, \<^verbatim>\<open>ve\<close>, \<^verbatim>\<open>rms\<close> and \<^verbatim>\<open>evid\<close> of a header line; the station
  code, relative time, weight and phase hint of a pick line.  An argument that is
  \<^verbatim>\<open>None\<close> is rendered as the text \<^verbatim>\<open>None\<close>.
\<close>

datatype 't pha_line =
    PHA1 't real "real option" real "real option" real real real string
  | PHA2 "string option" real "real option" "string option"

text \<open>
  The local variable \<^verbatim>\<open>eventid_map\<close> of \<^verbatim>\<open>_write_pha\<close> is rebound by the tuple
  assignment of line 209; it holds the dict, or a string when a string was unpacked.
\<close>

datatype map_var =
    VDict "(string \<times> string) list"
  | VStr string

text \<open>
  \<^verbatim>\<open>evid, eventid_map = _map_eventid(...)\<close>: a pair is taken apart; a string is
  iterated, so a string of two characters gives its two characters and any other
  length raises \<^verbatim>\<open>ValueError\<close>.
\<close>

definition unpack2 :: "map_ret \<Rightarrow> error + (string \<times> map_var)" where
  "unpack2 r =
     (case r of
        RetPair idpha m \<Rightarrow> Inr (idpha, VDict m)
      | RetId idpha \<Rightarrow>
          (case idpha of
             [a, b] \<Rightarrow> Inr ([a], VStr [b])
           | _ \<Rightarrow>
               Inl (ValueError (if length idpha > 2
                                then ''too many values to unpack (expected 2)''
                                else ''not enough values to unpack (expected 2, got 1)''))))"

record 't writer =
  w_lines :: "'t pha_line list"
  warnings :: "string list"
  w_session :: session
  w_map :: map_var

definition warn :: "string \<Rightarrow> 't writer \<Rightarrow> 't writer" where
  "warn msg w = w\<lparr>warnings := warnings w @ [msg]\<rparr>"

text \<open>\<^verbatim>\<open>event.preferred_origin() or event.origins[0]\<close>, and the same for the magnitude.\<close>

definition resolve_origin :: "'t event \<Rightarrow> error + 't origin" where
  "resolve_origin e =
     (case preferred_origin e of
        Some ori \<Rightarrow> Inr ori
      | None \<Rightarrow> (case origins e of [] \<Rightarrow> Inl IndexError | ori # _ \<Rightarrow> Inr ori))"

definition resolve_magnitude :: "'t event \<Rightarrow> error + magnitude" where
  "resolve_magnitude e =
     (case preferred_magnitude e of
        Some m \<Rightarrow> Inr m
      | None \<Rightarrow> (case magnitudes e of [] \<Rightarrow> Inl IndexError | m # _ \<Rightarrow> Inr m))"

text \<open>The loop over \<^verbatim>\<open>event.picks\<close> (lines 226 to 230).\<close>

fun pick_lines ::
  "'t lib \<Rightarrow> (string \<rightharpoonup> real option) \<Rightarrow> 't \<Rightarrow> 't pick list \<Rightarrow> error + 't pha_line list" where
  "pick_lines L weights otime [] = Inr []"
| "pick_lines L weights otime (p # ps) =
     (let weight = (case weights (p_resource_id p) of None \<Rightarrow> Some 1 | Some wt \<Rightarrow> wt)
      in case p_time p of
           None \<Rightarrow> Inl TypeError
         | Some ptime \<Rightarrow>
             (case p_waveform_id p of
                None \<Rightarrow> Inl AttributeError
              | Some seed \<Rightarrow>
                  (case pick_lines L weights otime ps of
                     Inl err \<Rightarrow> Inl err
                   | Inr rest \<Rightarrow>
                       Inr (PHA2 (station_code L seed) (utc_sub L ptime otime) weight
                              (p_phase_hint p) # rest))))"

text \<open>The body of the loop over the catalog (lines 195 to 230) for one event.\<close>

definition write_event :: "'t lib \<Rightarrow> 't event \<Rightarrow> 't writer \<Rightarrow> error + 't writer" where
  "write_event L e w =
     (case resolve_origin e of
        Inl _ \<Rightarrow> Inr (warn ''Skip writing events with missing origin'' w)
      | Inr ori \<Rightarrow>
          (let (w1, mg) =
                 (case resolve_magnitude e of
                    Inl _ \<Rightarrow> (warn ''Missing magnitude will be set to 0.0'' w, Some 0)
                  | Inr m \<Rightarrow> (w, mag m));
               rid = e_resource_id e;
               evid0 = (if CHR ''/'' \<in> set rid then last (split_on CHR ''/'' rid) else rid)
           in case map_eventid evid0 (w_session w1) of
                Inl err \<Rightarrow> Inl err
              | Inr (r, sess) \<Rightarrow>
                  (case unpack2 r of
                     Inl err \<Rightarrow> Inl err
                   | Inr (evid, mv) \<Rightarrow>
                       (case quality ori of
                          None \<Rightarrow> Inl AttributeError
                        | Some qu \<Rightarrow>
                            (let rms = (case standard_error qu of None \<Rightarrow> 0 | Some x \<Rightarrow> x);
                                 he1 = latitude_errors ori;
                                 he2 = longitude_errors ori
                             in case latitude ori of
                                  None \<Rightarrow> Inl TypeError
                                | Some lat \<Rightarrow>
                                    (let shortening = cos (deg2rad lat);
                                         he = max (case he1 of None \<Rightarrow> 0 | Some x \<Rightarrow> x * DEG2KM)
                                                  (case he2 of None \<Rightarrow> 0
                                                   | Some x \<Rightarrow> x * DEG2KM * shortening);
                                         ve = (case depth_errors ori of None \<Rightarrow> 0
                                               | Some x \<Rightarrow> x / 1000)
                                     in case depth ori of
                                          None \<Rightarrow> Inl TypeError
                                        | Some dp \<Rightarrow>
                                            (case o_time ori of
                                               None \<Rightarrow> Inl AttributeError
                                             | Some otime \<Rightarrow>
                                                 (let header = PHA1 otime lat (longitude ori)
                                                                 (dp / 1000) mg he ve rms evid;
                                                      weights = map_of (rev (map (\<lambda>a. (pick_id a, time_weight a))
                                                                               (arrivals ori)))
                                                  in case pick_lines L weights otime (picks e) of
                                                       Inl err \<Rightarrow> Inl err
                                                     | Inr pls \<Rightarrow>
                                                         Inr \<lparr>w_lines = w_lines w1 @ header # pls,
                                                              warnings = warnings w1,
                                                              w_session = sess,
                                                              w_map = mv\<rparr>))))))))"

text \<open>The loop over the catalog: an exception ends the write.\<close>

fun write_events :: "'t lib \<Rightarrow> 't event list \<Rightarrow> 't writer \<Rightarrow> error + 't writer" where
  "write_events L [] w = Inr w"
| "write_events L (e # es) w =
     (case write_event L e w of
        Inl err \<Rightarrow> Inl err
      | Inr w' \<Rightarrow> write_events L es w')"

text \<open>
  What \<^verbatim>\<open>_write_pha\<close> returns: \<^verbatim>\<open>None\<close>, the dict, or the string the local variable
  holds.  The result of the model keeps, beside it, the lines handed to the destination
  in the one call of \<^verbatim>\<open>write\<close>, the warnings issued, and the content of the
  caller's dict after the call.
\<close>

datatype returned =
    RNone
  | RDict "(string \<times> string) list"
  | RStr string

record 't written =
  data :: "'t pha_line list"
  result :: returned
  issued :: "string list"
  final_map :: "(string \<times> string) list"

definition write_pha ::
  "'t lib \<Rightarrow> 't event list \<Rightarrow> (string \<times> string) list option \<Rightarrow> error + 't written" where
  "write_pha L catalog emap =
     (let m0 = (case emap of None \<Rightarrow> [] | Some m \<Rightarrow> m);
          sess = \<lparr>eventid_map = m0, used_ids = fset_of_list (map snd m0), counter = 1000\<rparr>;
          w0 = \<lparr>w_lines = [], warnings = [], w_session = sess, w_map = VDict m0\<rparr>
      in case write_events L catalog w0 of
           Inl err \<Rightarrow> Inl err
         | Inr w \<Rightarrow>
             Inr \<lparr>data = w_lines w,
                  result = (case w_map w of
                              VDict m \<Rightarrow> if length m = 0 then RNone else RDict m
                            | VStr s \<Rightarrow> if length s = 0 then RNone else RStr s),
                  issued = warnings w,
                  final_map = eventid_map (w_session w)\<rparr>)"

section \<open>Strings of the reader\<close>

text \<open>
  \<^verbatim>\<open>str.split()\<close>, \<^verbatim>\<open>str.strip()\<close> and \<^verbatim>\<open>str.splitlines()\<close> on code points below
  256.  White space for a \<^verbatim>\<open>str\<close> is U+0009 to U+000D, U+001C to U+0020, U+0085
  and U+00A0; for \<^verbatim>\<open>bytes\<close> it is the six ASCII characters U+0009 to U+000D and
  U+0020.  A line of \<^verbatim>\<open>splitlines\<close> ends at \<^verbatim>\<open>\n\<close>, \<^verbatim>\<open>\r\<close>, \<^verbatim>\<open>\r\n\<close>, U+000B,
  U+000C, U+001C, U+001D, U+001E or U+0085.
\<close>

definition isspace_char :: "char \<Rightarrow> bool" where
  "isspace_char c =
     (let n = (of_char c :: nat)
      in (9 \<le> n \<and> n \<le> 13) \<or> (28 \<le> n \<and> n \<le> 32) \<or> n = 133 \<or> n = 160)"

definition isspace_byte :: "char \<Rightarrow> bool" where
  "isspace_byte c = (let n = (of_char c :: nat) in (9 \<le> n \<and> n \<le> 13) \<or> n = 32)"

definition is_linebreak :: "char \<Rightarrow> bool" where
  "is_linebreak c =
     (let n = (of_char c :: nat)
      in (10 \<le> n \<and> n \<le> 13) \<or> (28 \<le> n \<and> n \<le> 30) \<or> n = 133)"

text \<open>\<^verbatim>\<open>s.split()\<close>: the maximal runs of characters that are not white space.\<close>

function split_ws :: "(char \<Rightarrow> bool) \<Rightarrow> string \<Rightarrow> string list" where
  "split_ws sp s =
     (case dropWhile sp s of
        [] \<Rightarrow> []
      | c # cs \<Rightarrow>
          (c # takeWhile (\<lambda>x. \<not> sp x) cs) # split_ws sp (dropWhile (\<lambda>x. \<not> sp x) cs))"
  by pat_completeness auto

lemma length_dropWhile_less:
  "dropWhile p s = c # cs \<Longrightarrow> length (dropWhile q cs) < length s"
proof -
  assume eq: "dropWhile p s = c # cs"
  have "length (dropWhile q cs) \<le> length cs" by (rule length_dropWhile_le)
  also have "\<dots> < length (dropWhile p s)" using eq by simp
  also have "\<dots> \<le> length s" by (rule length_dropWhile_le)
  finally show ?thesis .
qed

termination split_ws
  by (relation "measure (\<lambda>(sp, s). length s)") (auto intro: length_dropWhile_less)

declare split_ws.simps [simp del]

definition strip :: "string \<Rightarrow> string" where
  "strip s = rev (dropWhile isspace_char (rev (dropWhile isspace_char s)))"

fun splitlines_from :: "string \<Rightarrow> string \<Rightarrow> string list" where
  "splitlines_from cur [] = (if cur = [] then [] else [rev cur])"
| "splitlines_from cur [c] = (if is_linebreak c then [rev cur] else [rev (c # cur)])"
| "splitlines_from cur (c # d # cs) =
     (if c = CHR 0x0D \<and> d = CHR 0x0A then rev cur # splitlines_from [] cs
      else if is_linebreak c then rev cur # splitlines_from [] (d # cs)
      else splitlines_from (c # cur) (d # cs))"

definition splitlines :: "string \<Rightarrow> string list" where
  "splitlines s = splitlines_from [] s"

text \<open>\<^verbatim>\<open>str.lower()\<close>: the letters A to Z, and U+00C0 to U+00DE but for U+00D7, move
  up by 32.\<close>

definition lower_char :: "char \<Rightarrow> char" where
  "lower_char c =
     (let n = (of_char c :: nat)
      in if (65 \<le> n \<and> n \<le> 90) \<or> (192 \<le> n \<and> n \<le> 222 \<and> n \<noteq> 215) then char_of (n + 32)
         else c)"

definition lower :: "string \<Rightarrow> string" where
  "lower s = map lower_char s"

section \<open>The reader: \<^verbatim>\<open>_block2event\<close> and \<^verbatim>\<open>_read_pha\<close>\<close>

definition bind_err :: "error + 'a \<Rightarrow> ('a \<Rightarrow> error + 'b) \<Rightarrow> error + 'b" where
  "bind_err x f = (case x of Inl err \<Rightarrow> Inl err | Inr v \<Rightarrow> f v)"

definition unpack_msg :: string where
  "unpack_msg = ''wrong number of values to unpack''"

text \<open>
  The loop over the pick lines (lines 43 to 53).  The counter \<open>n\<close> numbers the resource
  identifiers generated so far, one for each \<^verbatim>\<open>Pick\<close>.
\<close>

fun read_picks ::
  "'t lib \<Rightarrow> (string \<rightharpoonup> string) \<Rightarrow> string \<Rightarrow> (string \<rightharpoonup> string) \<Rightarrow> 't \<Rightarrow> string list \<Rightarrow> nat
     \<Rightarrow> error + (('t pick list \<times> arrival list) \<times> nat)" where
  "read_picks L seed_map id_default ph2comp otime [] n = Inr (([], []), n)"
| "read_picks L seed_map id_default ph2comp otime (l # ls) n =
     (case split_ws isspace_char l of
        [sta, reltime, weight, phase] \<Rightarrow>
          (let comp = (case ph2comp phase of None \<Rightarrow> [] | Some cp \<Rightarrow> cp);
               wid = (case seed_map sta of None \<Rightarrow> id_default | Some tmpl \<Rightarrow> tmpl)
           in case format_seed L wid sta comp of
                Inl err \<Rightarrow> Inl err
              | Inr seed \<Rightarrow>
                  (case py_float L reltime of
                     Inl err \<Rightarrow> Inl err
                   | Inr rt \<Rightarrow>
                       (case py_float L weight of
                          Inl err \<Rightarrow> Inl err
                        | Inr wt \<Rightarrow>
                            (let pick = \<lparr>p_resource_id = new_resource_id L n,
                                         p_waveform_id = Some seed,
                                         p_phase_hint = Some phase,
                                         p_time = Some (utc_add L otime rt)\<rparr>;
                                 arr = \<lparr>a_phase = phase, pick_id = p_resource_id pick,
                                        time_weight = Some wt\<rparr>
                             in case read_picks L seed_map id_default ph2comp otime ls (Suc n) of
                                  Inl err \<Rightarrow> Inl err
                                | Inr ((ps, arrs), n') \<Rightarrow> Inr ((pick # ps, arr # arrs), n')))))
      | _ \<Rightarrow> Inl (ValueError unpack_msg))"

text \<open>Lines 36 to 38: the latitude and longitude errors from the fields \<^verbatim>\<open>eh\<close> and
  \<^verbatim>\<open>la\<close>.  A division by zero raises.\<close>

definition laterr_of :: "real \<Rightarrow> real option" where
  "laterr_of eh = (if eh = 0 then None else Some (eh / DEG2KM))"

definition lonerr_of :: "'t lib \<Rightarrow> real option \<Rightarrow> string \<Rightarrow> error + real option" where
  "lonerr_of L laterr la =
     (case laterr of
        None \<Rightarrow> Inr None
      | Some le \<Rightarrow>
          bind_err (py_float L la) (\<lambda>lat.
            if lat > 89 then Inr None
            else if cos (deg2rad lat) = 0 then Inl ZeroDivisionError
            else Inr (Some (le / cos (deg2rad lat)))))"

text \<open>
  Lines 65 to 71.  Modelled from the spec: the constructor \<^verbatim>\<open>Magnitude(mag=mg, ...)\<close>
  of the event class, which is not part of these sources, holds the float the token
  parses to.
\<close>

definition read_magnitude ::
  "'t lib \<Rightarrow> string \<Rightarrow> string \<Rightarrow> error + (magnitude list \<times> string option)" where
  "read_magnitude L mg evid =
     (if lower mg = ''nan'' then Inr ([], None)
      else bind_err (py_float L mg) (\<lambda>x.
             let m = \<lparr>m_resource_id = ''smi:local/magnitude/'' @ evid, mag = Some x\<rparr>
             in Inr ([m], Some (m_resource_id m))))"

text \<open>Lines 54 to 77: the \<^verbatim>\<open>OriginQuality\<close>, the \<^verbatim>\<open>Origin\<close> and the \<^verbatim>\<open>Event\<close> built
  from the values read.\<close>

definition make_event ::
  "string \<Rightarrow> 't \<Rightarrow> real \<Rightarrow> real option \<Rightarrow> real \<Rightarrow> real \<Rightarrow> 't pick list \<Rightarrow> arrival list
     \<Rightarrow> real \<Rightarrow> real \<Rightarrow> real \<Rightarrow> magnitude list \<Rightarrow> string option \<Rightarrow> 't event" where
  "make_event evid otime herr lonerr verr res ps arrs lat lon dep mags pref =
     (let qu = \<lparr>associated_phase_count = length ps,
                standard_error = (if res = 0 then None else Some res)\<rparr>;
          ori = \<lparr>o_resource_id = ''smi:local/origin/'' @ evid,
                 o_time = Some otime,
                 latitude = Some lat,
                 longitude = Some lon,
                 depth = Some (1000 * dep),
                 latitude_errors = laterr_of herr,
                 longitude_errors = lonerr,
                 depth_errors = (if verr = 0 then None else Some (verr * 1000)),
                 quality = Some qu,
                 arrivals = arrs\<rparr>
      in \<lparr>e_resource_id = ''smi:local/event/'' @ evid,
          picks = ps,
          origins = [ori],
          magnitudes = mags,
          preferred_origin_id = Some (o_resource_id ori),
          preferred_magnitude_id = pref\<rparr>)"

definition block2event ::
  "'t lib \<Rightarrow> string \<Rightarrow> (string \<rightharpoonup> string) \<Rightarrow> string \<Rightarrow> (string \<rightharpoonup> string)
     \<Rightarrow> (string \<times> string) list option \<Rightarrow> nat \<Rightarrow> error + ('t event \<times> nat)" where
  "block2event L block seed_map id_default ph2comp emap n =
     (case splitlines (strip block) of
        [] \<Rightarrow> Inl IndexError
      | first # rest \<Rightarrow>
          (case split_ws isspace_char first of
             [yr, mo, dy, hr, mn, sc, la, lo, dp, mg, eh, ez, rms, id0] \<Rightarrow>
               (let evid = (case emap of
                             None \<Rightarrow> id0
                           | Some m \<Rightarrow> (case map_of m id0 of None \<Rightarrow> id0 | Some v \<Rightarrow> v))
                in bind_err (py_int L yr) (\<lambda>year.
                   bind_err (py_int L mo) (\<lambda>month.
                   bind_err (py_int L dy) (\<lambda>day.
                   bind_err (py_int L hr) (\<lambda>hour.
                   bind_err (py_int L mn) (\<lambda>minute.
                   bind_err (py_float L sc) (\<lambda>second.
                   bind_err (utcdatetime L year month day hour minute second) (\<lambda>otime.
                   bind_err (py_float L eh) (\<lambda>herr.
                   bind_err (lonerr_of L (laterr_of herr) la) (\<lambda>lonerr.
                   bind_err (py_float L ez) (\<lambda>verr.
                   bind_err (py_float L rms) (\<lambda>res.
                   bind_err (read_picks L seed_map id_default ph2comp otime rest n) (\<lambda>((ps, arrs), n').
                   bind_err (py_float L la) (\<lambda>lat.
                   bind_err (py_float L lo) (\<lambda>lon.
                   bind_err (py_float L dp) (\<lambda>dep.
                   bind_err (read_magnitude L mg evid) (\<lambda>(mags, pref).
                     Inr (make_event evid otime herr lonerr verr res ps arrs lat lon dep
                            mags pref, n'))))))))))))))))))
           | _ \<Rightarrow> Inl (ValueError unpack_msg)))"

text \<open>The list comprehension of line 141: the blocks in order, the first exception
  ending the read.\<close>

fun blocks2events ::
  "'t lib \<Rightarrow> string list \<Rightarrow> (string \<rightharpoonup> string) \<Rightarrow> string \<Rightarrow> (string \<rightharpoonup> string)
     \<Rightarrow> (string \<times> string) list option \<Rightarrow> nat \<Rightarrow> error + 't event list" where
  "blocks2events L [] seed_map id_default ph2comp emap n = Inr []"
| "blocks2events L (b # bs) seed_map id_default ph2comp emap n =
     (case block2event L b seed_map id_default ph2comp emap n of
        Inl err \<Rightarrow> Inl err
      | Inr (e, n') \<Rightarrow>
          (case blocks2events L bs seed_map id_default ph2comp emap n' of
             Inl err \<Rightarrow> Inl err
           | Inr es \<Rightarrow> Inr (e # es)))"

text \<open>
  \<^verbatim>\<open>_read_pha\<close> receives \<^verbatim>\<open>eventid_map\<close> as a reference to the caller's dict, so the
  dicts live in a store: a list of dicts, a reference being an index into it.
  \<^verbatim>\<open>{v: k for k, v in eventid_map.items()}\<close> builds a new dict, placed at the end of
  the store; a key met twice keeps its place and takes the later value.  The function
  returns the store it leaves behind with the catalog or the exception.  The dict
  \<^verbatim>\<open>_seed_id_map(inventory, id_map)\<close> is the argument \<open>seed_map\<close>, and \<open>fs\<close> gives the
  decoded text of each file that can be read.
\<close>

type_synonym store = "(string \<times> string) list list"

definition invert_dict :: "(string \<times> string) list \<Rightarrow> (string \<times> string) list" where
  "invert_dict d = foldl (\<lambda>acc (k, v). AList.update v k acc) [] d"

definition read_pha ::
  "'t lib \<Rightarrow> (string \<rightharpoonup> string) \<Rightarrow> store \<Rightarrow> string \<Rightarrow> (string \<rightharpoonup> string) \<Rightarrow> string
     \<Rightarrow> (string \<rightharpoonup> string) \<Rightarrow> nat option \<Rightarrow> (error + 't event list) \<times> store" where
  "read_pha L fs st filename seed_map id_default ph2comp eventid_map_ref =
     (let (local_ref, st') =
            (case eventid_map_ref of
               None \<Rightarrow> (None, st)
             | Some a \<Rightarrow> (Some (length st), st @ [invert_dict (st ! a)]))
      in case fs filename of
           None \<Rightarrow> (Inl FileNotFoundError, st')
         | Some content \<Rightarrow>
             (blocks2events L (tl (split_on CHR ''#'' content)) seed_map id_default ph2comp
                (map_option (\<lambda>b. st' ! b) local_ref) 0, st'))"

section \<open>The format detector \<^verbatim>\<open>_is_pha\<close>\<close>

text \<open>\<^verbatim>\<open>f.readline()\<close> on a file just opened in binary mode: the bytes up to and
  with the first \<^verbatim>\<open>\n\<close>, or all of them.\<close>

fun readline :: "string \<Rightarrow> string" where
  "readline [] = []"
| "readline (c # cs) = (if c = CHR 0x0A then [c] else c # readline cs)"

definition startswith_hash :: "string \<Rightarrow> bool" where
  "startswith_hash s = (case s of [] \<Rightarrow> False | c # _ \<Rightarrow> c = CHR ''#'')"

text \<open>Lines 87 to 89: the six tokens converted in order and handed to
  \<^verbatim>\<open>UTCDateTime(..., strict=False)\<close>.\<close>

definition header_time :: "'t lib \<Rightarrow> string list \<Rightarrow> error + 't" where
  "header_time L toks =
     (case toks of
        [yr, mo, dy, hr, mn, sc] \<Rightarrow>
          bind_err (py_int L yr) (\<lambda>year.
          bind_err (py_int L mo) (\<lambda>month.
          bind_err (py_int L dy) (\<lambda>day.
          bind_err (py_int L hr) (\<lambda>hour.
          bind_err (py_int L mn) (\<lambda>minute.
          bind_err (py_float L sc) (\<lambda>second.
            utcdatetime L year month day hour minute second))))))
      | _ \<Rightarrow> Inl (ValueError unpack_msg))"

text \<open>The body of the \<^verbatim>\<open>try\<close> (lines 83 to 89); \<open>fs\<close> gives the bytes of each file
  that can be opened.\<close>

definition is_pha_try :: "'t lib \<Rightarrow> (string \<rightharpoonup> string) \<Rightarrow> string \<Rightarrow> error + 't" where
  "is_pha_try L fs filename =
     (case fs filename of
        None \<Rightarrow> Inl FileNotFoundError
      | Some content \<Rightarrow>
          (let first = readline content
           in if \<not> startswith_hash first then Inl AssertionError
              else if length (split_ws isspace_byte first) \<noteq> 15 then Inl AssertionError
              else header_time L (take 6 (drop 1 (split_ws isspace_byte first)))))"

definition is_pha :: "'t lib \<Rightarrow> (string \<rightharpoonup> string) \<Rightarrow> string \<Rightarrow> bool" where
  "is_pha L fs filename = (case is_pha_try L fs filename of Inl _ \<Rightarrow> False | Inr _ \<Rightarrow> True)"

section \<open>A library for the examples\<close>

text \<open>
  A plain instance of \<open>lib\<close>, on which the model is run in the examples: tokens are
  decimal numerals with an optional minus sign (and, for a float, an optional
  fraction), a time is the number of seconds since 1970, and a template has the slots
  \<^verbatim>\<open>{}\<close>.  On these tokens it returns what Python returns.
\<close>

definition ascii_digits :: "string \<Rightarrow> bool" where
  "ascii_digits s =
     (s \<noteq> [] \<and> list_all (\<lambda>c. 48 \<le> (of_char c :: nat) \<and> (of_char c :: nat) \<le> 57) s)"

definition plain_nat :: "string \<Rightarrow> error + nat" where
  "plain_nat s =
     (if ascii_digits s then Inr (nat_of_str s) else Inl (ValueError ''invalid literal''))"

definition plain_int :: "string \<Rightarrow> error + int" where
  "plain_int s =
     (case s of
        [] \<Rightarrow> Inl (ValueError ''invalid literal'')
      | c # ds \<Rightarrow>
          if c = CHR ''-'' then bind_err (plain_nat ds) (\<lambda>n. Inr (- int n))
          else bind_err (plain_nat s) (\<lambda>n. Inr (int n)))"

definition plain_decimal :: "string \<Rightarrow> error + real" where
  "plain_decimal s =
     (case split_on CHR ''.'' s of
        [ip] \<Rightarrow> bind_err (plain_nat ip) (\<lambda>n. Inr (real n))
      | [ip, fp] \<Rightarrow>
          bind_err (plain_nat ip) (\<lambda>n.
          bind_err (plain_nat fp) (\<lambda>f. Inr (real n + real f / 10 ^ length fp)))
      | _ \<Rightarrow> Inl (ValueError ''could not convert string to float''))"

definition plain_float :: "string \<Rightarrow> error + real" where
  "plain_float s =
     (case s of
        [] \<Rightarrow> Inl (ValueError ''could not convert string to float'')
      | c # ds \<Rightarrow>
          if c = CHR ''-'' then bind_err (plain_decimal ds) (\<lambda>x. Inr (- x))
          else plain_decimal s)"

definition leap_year :: "int \<Rightarrow> bool" where
  "leap_year y = (y mod 4 = 0 \<and> (y mod 100 \<noteq> 0 \<or> y mod 400 = 0))"

definition days_in_month :: "int \<Rightarrow> int \<Rightarrow> int" where
  "days_in_month y m =
     (if m = 2 then (if leap_year y then 29 else 28)
      else if m = 4 \<or> m = 6 \<or> m = 9 \<or> m = 11 then 30 else 31)"

definition days_from_civil :: "int \<Rightarrow> int \<Rightarrow> int \<Rightarrow> int" where
  "days_from_civil y m d =
     (let y' = (if m \<le> 2 then y - 1 else y);
          era = y' div 400;
          yoe = y' - era * 400;
          doy = (153 * (if m > 2 then m - 3 else m + 9) + 2) div 5 + d - 1;
          doe = yoe * 365 + yoe div 4 - yoe div 100 + doy
      in era * 146097 + doe - 719468)"

definition plain_utc :: "int \<Rightarrow> int \<Rightarrow> int \<Rightarrow> int \<Rightarrow> int \<Rightarrow> real \<Rightarrow> error + real" where
  "plain_utc y m d h mi s =
     (if 1 \<le> y \<and> y \<le> 9999 \<and> 1 \<le> m \<and> m \<le> 12 \<and> 1 \<le> d \<and> d \<le> days_in_month y m
      then Inr (real_of_int (days_from_civil y m d * 86400 + h * 3600 + mi * 60) + s)
      else Inl (ValueError ''date out of range''))"

fun fill_slots :: "string \<Rightarrow> string list \<Rightarrow> error + string" where
  "fill_slots [] args = Inr []"
| "fill_slots [c] args =
     (if c = CHR ''{'' \<or> c = CHR ''}'' then Inl (ValueError ''single brace'') else Inr [c])"
| "fill_slots (c # d # cs) args =
     (if c = CHR ''{'' \<and> d = CHR ''}'' then
        (case args of
           [] \<Rightarrow> Inl IndexError
         | a # rest \<Rightarrow> bind_err (fill_slots cs rest) (\<lambda>r. Inr (a @ r)))
      else if c = CHR ''{'' \<or> c = CHR ''}'' then Inl (ValueError ''unsupported field'')
      else bind_err (fill_slots (d # cs) args) (\<lambda>r. Inr (c # r)))"

definition plain_station :: "string \<Rightarrow> string option" where
  "plain_station seed =
     (case split_on CHR ''.'' seed of [net, sta, loc, cha] \<Rightarrow> Some sta | _ \<Rightarrow> None)"

definition plain_lib :: "real lib" where
  "plain_lib =
     \<lparr>py_int = plain_int,
      py_float = plain_float,
      utcdatetime = plain_utc,
      utc_add = (\<lambda>t x. t + x),
      utc_sub = (\<lambda>a b. a - b),
      format_seed = (\<lambda>tmpl sta comp. fill_slots tmpl [sta, comp]),
      station_code = plain_station,
      new_resource_id = (\<lambda>n. ''smi:local/'' @ str_nat n)\<rparr>"

lemmas plain_defs =
  plain_lib_def plain_float_def plain_decimal_def plain_int_def plain_nat_def
  ascii_digits_def nat_of_str_def digit_val_def plain_utc_def days_from_civil_def
  days_in_month_def leap_year_def plain_station_def bind_err_def

section \<open>An example event\<close>

text \<open>
  The event of the block
  \<^verbatim>\<open>#  2001   1  15   8   5   0.00  40.0  -120.0  5.0  2.5  0.0  0.5  0.1  ID\<close> with the
  pick line \<^verbatim>\<open>STA1  1.2345  1.0  P\<close>, for an origin time, a pick time and the
  resource identifier of the event.
\<close>

definition example_event :: "'t \<Rightarrow> 't \<Rightarrow> string \<Rightarrow> 't event" where
  "example_event otime ptime rid =
     \<lparr>e_resource_id = rid,
      picks = [\<lparr>p_resource_id = ''smi:local/pick/1'', p_waveform_id = Some ''.STA1..Z'',
                p_phase_hint = Some ''P'', p_time = Some ptime\<rparr>],
      origins = [\<lparr>o_resource_id = ''smi:local/origin/1'', o_time = Some otime,
                  latitude = Some 40, longitude = Some (- 120), depth = Some 5000,
                  latitude_errors = None, longitude_errors = None, depth_errors = Some 500,
                  quality = Some \<lparr>associated_phase_count = 1, standard_error = Some (1 / 10)\<rparr>,
                  arrivals = [\<lparr>a_phase = ''P'', pick_id = ''smi:local/pick/1'',
                               time_weight = Some 1\<rparr>]\<rparr>],
      magnitudes = [\<lparr>m_resource_id = ''smi:local/magnitude/1'', mag = Some (5 / 2)\<rparr>],
      preferred_origin_id = Some ''smi:local/origin/1'',
      preferred_magnitude_id = Some ''smi:local/magnitude/1''\<rparr>"

lemmas write_defs =
  write_pha_def write_event_def resolve_origin_def preferred_origin_def
  resolve_magnitude_def preferred_magnitude_def unpack2_def warn_def

lemmas id_defs =
  map_eventid_def isdigit_def isdigit_char_def next_unused.simps str_int_def
  str_nat.simps digit_char_simps

section \<open>What the statements read off a run\<close>


text \<open>
  The event ids of the header lines of an output, in the order written, and the
  magnitude of a header line.
\<close>

fun line_evid :: "'t pha_line \<Rightarrow> string list" where
  "line_evid (PHA1 otime lat lon dp mg he ve rms evid) = [evid]"
| "line_evid (PHA2 sta relt weight phase) = []"

fun line_mag :: "'t pha_line \<Rightarrow> real option list" where
  "line_mag (PHA1 otime lat lon dp mg he ve rms evid) = [mg]"
| "line_mag (PHA2 sta relt weight phase) = []"

definition emitted_ids :: "'t pha_line list \<Rightarrow> string list" where
  "emitted_ids ls = concat (map line_evid ls)"

text \<open>
  Lines 207 and 208: the source id of an event, the part of its resource identifier
  after the last \<^verbatim>\<open>/\<close>.  \<open>source_ids\<close> lists the source ids of the events of a
  catalog that have an origin, the events the loop writes a header line for.
\<close>

definition event_evid :: "'t event \<Rightarrow> string" where
  "event_evid e =
     (let rid = e_resource_id e
      in if CHR ''/'' \<in> set rid then last (split_on CHR ''/'' rid) else rid)"


text \<open>
  The header line of lines 210 to 221 for an origin, with the magnitude and the warning
  of lines 200 to 206; in these terms the body of the loop is restated below
  (lemma \<open>write_event_eq\<close>).
\<close>

definition header_line ::
  "'t origin \<Rightarrow> origin_quality \<Rightarrow> real \<Rightarrow> real \<Rightarrow> 't \<Rightarrow> real option \<Rightarrow> string \<Rightarrow> 't pha_line" where
  "header_line ori qu lat dp otime mg evid =
     PHA1 otime lat (longitude ori) (dp / 1000) mg
       (max (case latitude_errors ori of None \<Rightarrow> 0 | Some x \<Rightarrow> x * DEG2KM)
            (case longitude_errors ori of None \<Rightarrow> 0
             | Some x \<Rightarrow> x * DEG2KM * cos (deg2rad lat)))
       (case depth_errors ori of None \<Rightarrow> 0 | Some x \<Rightarrow> x / 1000)
       (case standard_error qu of None \<Rightarrow> 0 | Some x \<Rightarrow> x) evid"

definition synth_mag :: "'t event \<Rightarrow> real option" where
  "synth_mag e = (case resolve_magnitude e of Inl _ \<Rightarrow> Some 0 | Inr m \<Rightarrow> mag m)"

definition synth_warnings :: "'t event \<Rightarrow> string list" where
  "synth_warnings e =
     (case resolve_magnitude e of
        Inl _ \<Rightarrow> [''Missing magnitude will be set to 0.0'']
      | Inr m \<Rightarrow> [])"


section \<open>Example inputs\<close>

text \<open>
  The default of the argument \<^verbatim>\<open>ph2comp\<close> of \<^verbatim>\<open>_read_pha\<close> (line 97); a block of
  one header line and one pick line, for a latitude, a magnitude and a horizontal error;
  the pick and the arrival the reader builds from it; and a file that holds the marker
  \<^verbatim>\<open>#\<close> and the block.
\<close>

definition ph2comp_default :: "string \<rightharpoonup> string" where
  "ph2comp_default = [''P'' \<mapsto> ''Z'', ''S'' \<mapsto> ''N'']"

definition pha_block :: "string \<Rightarrow> string \<Rightarrow> string \<Rightarrow> string" where
  "pha_block la mg eh =
     ''  2001   1  15   8   5   0.00  '' @ la @ ''  -120.0  5.0  '' @ mg @ ''  '' @ eh @
     ''  0.5  0.1  12345'' @ [CHR 0x0A] @ ''STA1  1.2345  1.0  P'' @ [CHR 0x0A]"

definition example_pick :: "real pick" where
  "example_pick =
     \<lparr>p_resource_id = ''smi:local/0'', p_waveform_id = Some ''.STA1..Z'',
      p_phase_hint = Some ''P'', p_time = Some (979545900 + 2469 / 2000)\<rparr>"

definition example_arrival :: arrival where
  "example_arrival = \<lparr>a_phase = ''P'', pick_id = ''smi:local/0'', time_weight = Some 1\<rparr>"

definition example_file :: string where
  "example_file = CHR ''#'' # pha_block ''40.0'' ''2.5'' ''1.0''"

definition example_fs :: "string \<rightharpoonup> string" where
  "example_fs = [''events.pha'' \<mapsto> example_file, ''empty.pha'' \<mapsto> []]"

text \<open>
  The example event with its times in seconds, for the plain library, and the state of
  the writer before the first event.
\<close>

definition written_event :: "string \<Rightarrow> real event" where
  "written_event rid = example_event 979545900 (979545900 + 2469 / 2000) rid"

definition empty_writer :: "real writer" where
  "empty_writer =
     \<lparr>w_lines = [], warnings = [], w_session = initial_session, w_map = VDict []\<rparr>"

section \<open>Forced mappings (C7)\<close>

text \<open>
  C7, the part the code agrees with: a forced mapping whose value is not all digits, or
  is longer than nine characters, makes \<^verbatim>\<open>_map_eventid\<close> raise the \<^verbatim>\<open>ValueError\<close> of
  line 160 when the mapping is looked up, and a valid one is handed back as it is, as
  a string.
\<close>

lemma map_eventid_forced:
  "map_of (eventid_map st) evid = Some idpha \<Longrightarrow>
   map_eventid evid st =
     (if isdigit idpha \<and> length idpha \<le> 9 then Inr (RetId idpha, st)
      else Inl (ValueError invalid_msg))"
  by (auto simp: map_eventid_def)

text \<open>
  C7, the part the code breaks: the claim has the writer emit the mapped value as the
  event id.  \<^verbatim>\<open>_write_pha\<close> unpacks what \<^verbatim>\<open>_map_eventid\<close> returns into two
  variables (line 209), and on the branch of a forced mapping that is the string alone.
  For the event \<^verbatim>\<open>smi:local/event/abc\<close> and the remap table \<^verbatim>\<open>{'abc': '123'}\<close> the
  write ends with \<^verbatim>\<open>ValueError: too many values to unpack\<close>, and no line is written.
\<close>

theorem write_pha_forced_mapping_raises:
  "write_pha L [example_event otime ptime ''smi:local/event/abc''] (Some [(''abc'', ''123'')])
     = Inl (ValueError ''too many values to unpack (expected 2)'')"
  by (simp add: write_defs example_event_def map_eventid_def isdigit_def isdigit_char_def
      Let_def)

text \<open>
  With a mapped value of two characters the unpacking succeeds: for the table
  \<^verbatim>\<open>{'abc': '12'}\<close> the header line carries the event id \<^verbatim>\<open>1\<close>, not \<^verbatim>\<open>12\<close>, and the
  call returns the string \<^verbatim>\<open>2\<close>.
\<close>

lemma write_pha_forced_mapping_two_chars:
  "write_pha L [example_event otime ptime ''smi:local/event/abc''] (Some [(''abc'', ''12'')])
     = Inr \<lparr>data = [PHA1 otime 40 (Some (- 120)) 5 (Some (5 / 2)) 0 (1 / 2) (1 / 10) ''1'',
                     PHA2 (station_code L ''.STA1..Z'') (utc_sub L ptime otime) (Some 1)
                       (Some ''P'')],
            result = RStr ''2'',
            issued = [],
            final_map = [(''abc'', ''12'')]\<rparr>"
  by (simp add: write_defs example_event_def map_eventid_def isdigit_def isdigit_char_def
      Let_def)

section \<open>Repeated source ids (C2)\<close>




text \<open>
  C2: the claim has every identifier handed back be unique, repeated source ids
  included.  From the initial state the first \<^verbatim>\<open>abc\<close> is handed \<^verbatim>\<open>1000\<close> and records
  the entry \<^verbatim>\<open>abc: 1000\<close>; the second \<^verbatim>\<open>abc\<close> finds that entry (lines 155 to 161) and
  is handed \<^verbatim>\<open>1000\<close> again.
\<close>

theorem map_eventid_repeated_id_same_output:
  "map_eventid ''abc'' initial_session =
     Inr (RetPair ''1000'' [(''abc'', ''1000'')],
          \<lparr>eventid_map = [(''abc'', ''1000'')], used_ids = {|''1000''|}, counter = 1001\<rparr>) \<and>
   map_eventid ''abc''
       \<lparr>eventid_map = [(''abc'', ''1000'')], used_ids = {|''1000''|}, counter = 1001\<rparr> =
     Inr (RetId ''1000'',
          \<lparr>eventid_map = [(''abc'', ''1000'')], used_ids = {|''1000''|}, counter = 1001\<rparr>)"
  by (simp add: initial_session_def id_defs Let_def)

text \<open>The second call alone, on the state the first one left.\<close>

theorem map_eventid_repeated_id_second_call:
  "map_eventid ''abc''
       \<lparr>eventid_map = [(''abc'', ''1000'')], used_ids = {|''1000''|}, counter = 1001\<rparr> =
     Inr (RetId ''1000'',
          \<lparr>eventid_map = [(''abc'', ''1000'')], used_ids = {|''1000''|}, counter = 1001\<rparr>)"
  by (rule map_eventid_repeated_id_same_output[THEN conjunct2])

text \<open>
  The sibling path: a repeated source id that is a valid identifier itself leaves no
  entry at its first call (line 169), so its second call runs the loop and is handed a
  new identifier.  The third call finds the entry of the second and repeats it.
\<close>

lemma map_eventid_repeated_numeric_id:
  "map_eventid ''123'' initial_session =
     Inr (RetPair ''123'' [],
          \<lparr>eventid_map = [], used_ids = {|''123''|}, counter = 1000\<rparr>) \<and>
   map_eventid ''123'' \<lparr>eventid_map = [], used_ids = {|''123''|}, counter = 1000\<rparr> =
     Inr (RetPair ''1000'' [(''123'', ''1000'')],
          \<lparr>eventid_map = [(''123'', ''1000'')], used_ids = {|''1000'', ''123''|},
           counter = 1001\<rparr>) \<and>
   map_eventid ''123''
       \<lparr>eventid_map = [(''123'', ''1000'')], used_ids = {|''1000'', ''123''|},
        counter = 1001\<rparr> =
     Inr (RetId ''1000'',
          \<lparr>eventid_map = [(''123'', ''1000'')], used_ids = {|''1000'', ''123''|},
           counter = 1001\<rparr>)"
  by (simp add: initial_session_def id_defs Let_def)

text \<open>
  A source id that \<^verbatim>\<open>str.isdigit\<close> accepts is handed back as it is.  The superscript
  two, U+00B2, is such a character, and \<^verbatim>\<open>int\<close> does not read it as a number.
\<close>

lemma map_eventid_superscript_digit:
  "map_eventid [CHR 0xB2] initial_session =
     Inr (RetPair [CHR 0xB2] [],
          \<lparr>eventid_map = [], used_ids = {|[CHR 0xB2]|}, counter = 1000\<rparr>)"
  by (simp add: initial_session_def id_defs Let_def)

text \<open>
  In \<^verbatim>\<open>_write_pha\<close>, the caller of \<^verbatim>\<open>_map_eventid\<close>, the second event \<^verbatim>\<open>abc\<close> of a
  catalog ends the write: the string \<^verbatim>\<open>1000\<close> handed back for it is unpacked into two
  variables (line 209).
\<close>

lemma write_pha_repeated_id_raises:
  "write_pha L [example_event otime ptime ''abc'', example_event otime ptime ''abc''] None
     = Inl (ValueError ''too many values to unpack (expected 2)'')"
  by (simp add: write_defs example_event_def id_defs Let_def)

section \<open>The reader on a block\<close>




lemma make_event_origins:
  "origins (make_event evid otime herr lonerr verr res ps arrs lat lon dep mags pref) =
     [\<lparr>o_resource_id = ''smi:local/origin/'' @ evid,
       o_time = Some otime,
       latitude = Some lat,
       longitude = Some lon,
       depth = Some (1000 * dep),
       latitude_errors = laterr_of herr,
       longitude_errors = lonerr,
       depth_errors = (if verr = 0 then None else Some (verr * 1000)),
       quality = Some \<lparr>associated_phase_count = length ps,
                       standard_error = (if res = 0 then None else Some res)\<rparr>,
       arrivals = arrs\<rparr>]"
  by (simp add: make_event_def)


text \<open>
  The reader evaluated on the example block, with the plain library.
\<close>

lemma cos_deg2rad_pos: "- 90 < x \<Longrightarrow> x < 90 \<Longrightarrow> 0 < cos (deg2rad x)"
proof -
  assume x: "- 90 < x" "x < 90"
  have "- 90 * (pi / 180) < x * (pi / 180)" "x * (pi / 180) < 90 * (pi / 180)"
    using x pi_gt_zero by (simp_all only: mult_less_cancel_right_pos divide_pos_pos zero_less_numeral)
  then have "- (pi / 2) < deg2rad x" "deg2rad x < pi / 2"
    by (simp_all add: deg2rad_def)
  then show ?thesis by (rule cos_gt_zero_pi)
qed

lemma example_lines:
  "splitlines (strip (pha_block ''40.0'' ''2.5'' ''1.0'')) =
     [''2001   1  15   8   5   0.00  40.0  -120.0  5.0  2.5  1.0  0.5  0.1  12345'',
      ''STA1  1.2345  1.0  P'']"
  "splitlines (strip (pha_block ''-89.5'' ''2.5'' ''1.0'')) =
     [''2001   1  15   8   5   0.00  -89.5  -120.0  5.0  2.5  1.0  0.5  0.1  12345'',
      ''STA1  1.2345  1.0  P'']"
  "splitlines (strip (pha_block ''40.0'' ''NaN'' ''0.0'')) =
     [''2001   1  15   8   5   0.00  40.0  -120.0  5.0  NaN  0.0  0.5  0.1  12345'',
      ''STA1  1.2345  1.0  P'']"
  by code_simp+

lemma example_tokens:
  "split_ws isspace_char
     ''2001   1  15   8   5   0.00  40.0  -120.0  5.0  2.5  1.0  0.5  0.1  12345'' =
     [''2001'', ''1'', ''15'', ''8'', ''5'', ''0.00'', ''40.0'', ''-120.0'', ''5.0'', ''2.5'',
      ''1.0'', ''0.5'', ''0.1'', ''12345'']"
  "split_ws isspace_char
     ''2001   1  15   8   5   0.00  -89.5  -120.0  5.0  2.5  1.0  0.5  0.1  12345'' =
     [''2001'', ''1'', ''15'', ''8'', ''5'', ''0.00'', ''-89.5'', ''-120.0'', ''5.0'', ''2.5'',
      ''1.0'', ''0.5'', ''0.1'', ''12345'']"
  "split_ws isspace_char
     ''2001   1  15   8   5   0.00  40.0  -120.0  5.0  NaN  0.0  0.5  0.1  12345'' =
     [''2001'', ''1'', ''15'', ''8'', ''5'', ''0.00'', ''40.0'', ''-120.0'', ''5.0'', ''NaN'',
      ''0.0'', ''0.5'', ''0.1'', ''12345'']"
  "split_ws isspace_char ''STA1  1.2345  1.0  P'' = [''STA1'', ''1.2345'', ''1.0'', ''P'']"
  by code_simp+


lemma example_floats:
  "py_float plain_lib ''0.00'' = Inr 0" "py_float plain_lib ''40.0'' = Inr 40"
  "py_float plain_lib ''-89.5'' = Inr (- 89.5)" "py_float plain_lib ''-120.0'' = Inr (- 120)"
  "py_float plain_lib ''5.0'' = Inr 5" "py_float plain_lib ''2.5'' = Inr (5 / 2)"
  "py_float plain_lib ''1.0'' = Inr 1" "py_float plain_lib ''0.0'' = Inr 0"
  "py_float plain_lib ''0.5'' = Inr (1 / 2)" "py_float plain_lib ''0.1'' = Inr (1 / 10)"
  "py_float plain_lib ''1.2345'' = Inr (2469 / 2000)"
  by (simp_all add: plain_defs)

lemma example_ints:
  "py_int plain_lib ''2001'' = Inr 2001" "py_int plain_lib ''1'' = Inr 1"
  "py_int plain_lib ''15'' = Inr 15" "py_int plain_lib ''8'' = Inr 8"
  "py_int plain_lib ''5'' = Inr 5"
  by (simp_all add: plain_defs)

lemma example_time: "utcdatetime plain_lib 2001 1 15 8 5 0 = Inr 979545900"
  by (simp add: plain_defs)

lemma example_picks:
  "read_picks plain_lib Map.empty ''.{}..{}'' ph2comp_default 979545900
     [''STA1  1.2345  1.0  P''] 0 = Inr (([example_pick], [example_arrival]), 1)"
proof -
  have "format_seed plain_lib ''.{}..{}'' ''STA1'' ''Z'' = Inr ''.STA1..Z''"
    by (simp add: plain_lib_def bind_err_def)
  moreover have "new_resource_id plain_lib 0 = ''smi:local/0''"
    by (simp add: plain_lib_def str_nat.simps digit_char_simps)
  moreover have "utc_add plain_lib 979545900 (2469 / 2000) = 979545900 + 2469 / 2000"
    by (simp add: plain_lib_def)
  ultimately show ?thesis
    by (simp add: example_tokens example_floats ph2comp_default_def example_pick_def
        example_arrival_def Let_def)
qed

lemma example_magnitude:
  "read_magnitude plain_lib ''2.5'' ''12345'' =
     Inr ([\<lparr>m_resource_id = ''smi:local/magnitude/12345'', mag = Some (5 / 2)\<rparr>],
          Some ''smi:local/magnitude/12345'')"
  "read_magnitude plain_lib ''NaN'' ''12345'' = Inr ([], None)"
proof -
  have "lower ''2.5'' = ''2.5''" "lower ''NaN'' = ''nan''" by code_simp+
  then show
    "read_magnitude plain_lib ''2.5'' ''12345'' =
       Inr ([\<lparr>m_resource_id = ''smi:local/magnitude/12345'', mag = Some (5 / 2)\<rparr>],
            Some ''smi:local/magnitude/12345'')"
    "read_magnitude plain_lib ''NaN'' ''12345'' = Inr ([], None)"
    by (simp_all add: read_magnitude_def example_floats bind_err_def)
qed

lemma example_lonerr:
  "lonerr_of plain_lib (laterr_of 1) ''40.0'' = Inr (Some (1 / DEG2KM / cos (deg2rad 40)))"
  "lonerr_of plain_lib (laterr_of 1) ''-89.5'' =
     Inr (Some (1 / DEG2KM / cos (deg2rad (- 89.5))))"
  "lonerr_of plain_lib (laterr_of 0) ''40.0'' = Inr None"
proof -
  have "0 < cos (deg2rad 40)" "0 < cos (deg2rad (- 89.5))"
    by (rule cos_deg2rad_pos; simp)+
  then show
    "lonerr_of plain_lib (laterr_of 1) ''40.0'' = Inr (Some (1 / DEG2KM / cos (deg2rad 40)))"
    "lonerr_of plain_lib (laterr_of 1) ''-89.5'' =
       Inr (Some (1 / DEG2KM / cos (deg2rad (- 89.5))))"
    "lonerr_of plain_lib (laterr_of 0) ''40.0'' = Inr None"
    by (simp_all add: lonerr_of_def laterr_of_def example_floats bind_err_def)
qed



section \<open>The pole guard (C3)\<close>


lemma lonerr_of_north:
  "lonerr_of L laterr la = Inr x \<Longrightarrow> py_float L la = Inr lat \<Longrightarrow> 89 < lat \<Longrightarrow> x = None"
  by (cases laterr) (auto simp: lonerr_of_def bind_err_def)

lemma lonerr_of_south:
  "py_float L la = Inr lat \<Longrightarrow> lat \<le> 89 \<Longrightarrow> cos (deg2rad lat) \<noteq> 0 \<Longrightarrow>
   lonerr_of L (Some le) la = Inr (Some (le / cos (deg2rad lat)))"
  by (simp add: lonerr_of_def bind_err_def)

text \<open>
  C3: the claim has the longitude error absent whenever the absolute value of the
  latitude is above 89 degrees.  For the block with latitude \<^verbatim>\<open>-89.5\<close> and horizontal
  error \<^verbatim>\<open>1.0\<close> the reader returns an origin at latitude \<open>-89.5\<close> whose longitude
  error is present: \<open>1 / 111.2 / cos (-89.5 degrees)\<close>.
\<close>

theorem block2event_south_pole:
  "block2event plain_lib (pha_block ''-89.5'' ''2.5'' ''1.0'') Map.empty ''.{}..{}''
       ph2comp_default None 0 =
     Inr (make_event ''12345'' 979545900 1 (Some (1 / DEG2KM / cos (deg2rad (- 89.5))))
            (1 / 2) (1 / 10) [example_pick] [example_arrival] (- 89.5) (- 120) 5
            [\<lparr>m_resource_id = ''smi:local/magnitude/12345'', mag = Some (5 / 2)\<rparr>]
            (Some ''smi:local/magnitude/12345''), 1) \<and>
   map latitude
     (origins (make_event ''12345'' 979545900 1 (Some (1 / DEG2KM / cos (deg2rad (- 89.5))))
        (1 / 2) (1 / 10) [example_pick] [example_arrival] (- 89.5) (- 120) 5
        [\<lparr>m_resource_id = ''smi:local/magnitude/12345'', mag = Some (5 / 2)\<rparr>]
        (Some ''smi:local/magnitude/12345''))) = [Some (- 89.5)] \<and>
   map longitude_errors
     (origins (make_event ''12345'' 979545900 1 (Some (1 / DEG2KM / cos (deg2rad (- 89.5))))
        (1 / 2) (1 / 10) [example_pick] [example_arrival] (- 89.5) (- 120) 5
        [\<lparr>m_resource_id = ''smi:local/magnitude/12345'', mag = Some (5 / 2)\<rparr>]
        (Some ''smi:local/magnitude/12345''))) =
     [Some (1 / DEG2KM / cos (deg2rad (- 89.5)))]"
  by (simp add: block2event_def example_lines(2) example_tokens example_ints
      example_floats example_time example_lonerr example_picks example_magnitude
      make_event_origins bind_err_def del: read_picks.simps)

section \<open>Error fields (C4)\<close>



section \<open>The magnitude (C5)\<close>



section \<open>Format detection (C6)\<close>





text \<open>
  A first line without the marker, one with 14 tokens, one with month 13 and one with
  a day that is not a number are not detected.
\<close>

lemma is_pha_examples:
  "\<not> is_pha plain_lib [''f'' \<mapsto> ''2001 1 15 8 5 0.00 40.0 -120.0 5.0 2.5 1.0 0.5 0.1 12345 x''] ''f''"
  "\<not> is_pha plain_lib [''f'' \<mapsto> ''# 2001 1 15 8 5 0.00 40.0 -120.0 5.0 2.5 1.0 0.5 0.1''] ''f''"
  "\<not> is_pha plain_lib [''f'' \<mapsto> ''# 2001 13 15 8 5 0.00 40.0 -120.0 5.0 2.5 1.0 0.5 0.1 12345''] ''f''"
  "\<not> is_pha plain_lib [''f'' \<mapsto> ''# 2001 1 x 8 5 0.00 40.0 -120.0 5.0 2.5 1.0 0.5 0.1 12345''] ''f''"
proof -
  have t1: "split_ws isspace_byte ''# 2001 1 15 8 5 0.00 40.0 -120.0 5.0 2.5 1.0 0.5 0.1'' =
      [''#'', ''2001'', ''1'', ''15'', ''8'', ''5'', ''0.00'', ''40.0'', ''-120.0'', ''5.0'',
       ''2.5'', ''1.0'', ''0.5'', ''0.1'']"
    and t2: "split_ws isspace_byte
        ''# 2001 13 15 8 5 0.00 40.0 -120.0 5.0 2.5 1.0 0.5 0.1 12345'' =
      [''#'', ''2001'', ''13'', ''15'', ''8'', ''5'', ''0.00'', ''40.0'', ''-120.0'', ''5.0'',
       ''2.5'', ''1.0'', ''0.5'', ''0.1'', ''12345'']"
    and t3: "split_ws isspace_byte
        ''# 2001 1 x 8 5 0.00 40.0 -120.0 5.0 2.5 1.0 0.5 0.1 12345'' =
      [''#'', ''2001'', ''1'', ''x'', ''8'', ''5'', ''0.00'', ''40.0'', ''-120.0'', ''5.0'',
       ''2.5'', ''1.0'', ''0.5'', ''0.1'', ''12345'']"
    by code_simp+
  show "\<not> is_pha plain_lib [''f'' \<mapsto> ''2001 1 15 8 5 0.00 40.0 -120.0 5.0 2.5 1.0 0.5 0.1 12345 x''] ''f''"
    by (simp add: is_pha_def is_pha_try_def startswith_hash_def)
  show "\<not> is_pha plain_lib [''f'' \<mapsto> ''# 2001 1 15 8 5 0.00 40.0 -120.0 5.0 2.5 1.0 0.5 0.1''] ''f''"
    by (simp add: is_pha_def is_pha_try_def startswith_hash_def t1)
  show "\<not> is_pha plain_lib [''f'' \<mapsto> ''# 2001 13 15 8 5 0.00 40.0 -120.0 5.0 2.5 1.0 0.5 0.1 12345''] ''f''"
    by (simp add: is_pha_def is_pha_try_def startswith_hash_def t2 header_time_def plain_defs)
  show "\<not> is_pha plain_lib [''f'' \<mapsto> ''# 2001 1 x 8 5 0.00 40.0 -120.0 5.0 2.5 1.0 0.5 0.1 12345''] ''f''"
    by (simp add: is_pha_def is_pha_try_def startswith_hash_def t3 header_time_def plain_defs)
qed

section \<open>Missing origins and magnitudes (C8)\<close>

text \<open>
  The body of the loop of \<^verbatim>\<open>_write_pha\<close> for an event without an origin, and for an
  event with the origin \<open>ori\<close>.
\<close>

lemma pick_lines_no_header: "pick_lines L weights otime ps = Inr pls \<Longrightarrow> emitted_ids pls = []"
proof (induction ps arbitrary: pls)
  case Nil
  then show ?case by (simp add: emitted_ids_def)
next
  case (Cons p ps)
  then show ?case
    by (auto simp: emitted_ids_def Let_def split: option.splits sum.splits)
qed

lemma write_event_skip:
  "resolve_origin e = Inl err \<Longrightarrow>
   write_event L e w = Inr (warn ''Skip writing events with missing origin'' w)"
  by (simp add: write_event_def)

lemma header_line_simps:
  "line_evid (header_line ori qu lat dp otime mg evid) = [evid]"
  "line_mag (header_line ori qu lat dp otime mg evid) = [mg]"
  by (simp_all add: header_line_def)

lemma write_event_eq:
  assumes "resolve_origin e = Inr ori"
  shows "write_event L e w =
     (case map_eventid (event_evid e) (w_session w) of
        Inl err \<Rightarrow> Inl err
      | Inr (r, sess) \<Rightarrow>
          (case unpack2 r of
             Inl err \<Rightarrow> Inl err
           | Inr (evid, mv) \<Rightarrow>
               (case quality ori of
                  None \<Rightarrow> Inl AttributeError
                | Some qu \<Rightarrow>
                    (case latitude ori of
                       None \<Rightarrow> Inl TypeError
                     | Some lat \<Rightarrow>
                         (case depth ori of
                            None \<Rightarrow> Inl TypeError
                          | Some dp \<Rightarrow>
                              (case o_time ori of
                                 None \<Rightarrow> Inl AttributeError
                               | Some otime \<Rightarrow>
                                   (case pick_lines L
                                           (map_of (rev (map (\<lambda>a. (pick_id a, time_weight a))
                                                           (arrivals ori))))
                                           otime (picks e) of
                                      Inl err \<Rightarrow> Inl err
                                    | Inr pls \<Rightarrow>
                                        Inr \<lparr>w_lines = w_lines w @
                                               header_line ori qu lat dp otime (synth_mag e) evid
                                               # pls,
                                             warnings = warnings w @ synth_warnings e,
                                             w_session = sess,
                                             w_map = mv\<rparr>)))))))"
  unfolding write_event_def event_evid_def header_line_def synth_mag_def synth_warnings_def
  using assms
  by (cases "resolve_magnitude e")
     (simp_all add: Let_def warn_def
        cong: sum.case_cong option.case_cong prod.case_cong)

lemma write_event_written:
  assumes "write_event L e w = Inr w'" and "resolve_origin e = Inr ori"
  shows "\<exists>r sess evid mv hdr pls.
           map_eventid (event_evid e) (w_session w) = Inr (r, sess) \<and>
           unpack2 r = Inr (evid, mv) \<and>
           w_session w' = sess \<and> w_map w' = mv \<and>
           w_lines w' = w_lines w @ hdr # pls \<and>
           line_evid hdr = [evid] \<and> line_mag hdr = [synth_mag e] \<and> emitted_ids pls = [] \<and>
           warnings w' = warnings w @ synth_warnings e"
  using assms(1) unfolding write_event_eq[OF assms(2)]
  by (auto simp: header_line_simps split: sum.splits option.splits prod.splits
      dest: pick_lines_no_header)

lemma resolve_origin_none: "origins e = [] \<Longrightarrow> resolve_origin e = Inl IndexError"
  by (simp add: resolve_origin_def preferred_origin_def split: option.splits)

lemma resolve_origin_some: "origins e \<noteq> [] \<Longrightarrow> \<exists>ori. resolve_origin e = Inr ori"
  by (cases "origins e") (simp_all add: resolve_origin_def split: option.splits)

lemma resolve_magnitude_none: "magnitudes e = [] \<Longrightarrow> resolve_magnitude e = Inl IndexError"
  by (simp add: resolve_magnitude_def preferred_magnitude_def split: option.splits)

lemma resolve_magnitude_single:
  "resolve_magnitude (e\<lparr>magnitudes := [m]\<rparr>) = Inr m"
  by (simp add: resolve_magnitude_def preferred_magnitude_def split: option.splits)

lemma resolve_origin_magnitudes_update:
  "resolve_origin (e\<lparr>magnitudes := ms\<rparr>) = resolve_origin e"
  by (simp add: resolve_origin_def preferred_origin_def
      cong: option.case_cong list.case_cong)

lemma write_event_synthesized:
  assumes "origins e \<noteq> []" and "magnitudes e = []"
  shows "write_event L e w =
           write_event L (e\<lparr>magnitudes := [\<lparr>m_resource_id = rid, mag = Some 0\<rparr>]\<rparr>)
             (warn ''Missing magnitude will be set to 0.0'' w)"
proof -
  let ?e' = "e\<lparr>magnitudes := [\<lparr>m_resource_id = rid, mag = Some 0\<rparr>]\<rparr>"
  from resolve_origin_some[OF assms(1)] obtain ori where ori: "resolve_origin e = Inr ori"
    by blast
  then have ori': "resolve_origin ?e' = Inr ori"
    by (simp only: resolve_origin_magnitudes_update)
  have sm: "synth_mag e = Some 0" "synth_warnings e = [''Missing magnitude will be set to 0.0'']"
    by (simp_all add: synth_mag_def synth_warnings_def resolve_magnitude_none[OF assms(2)])
  have sm': "synth_mag ?e' = Some 0" "synth_warnings ?e' = []"
    by (simp_all add: synth_mag_def synth_warnings_def resolve_magnitude_single)
  have ev: "event_evid ?e' = event_evid e" by (simp add: event_evid_def)
  show ?thesis
    unfolding write_event_eq[OF ori] write_event_eq[OF ori'] sm sm' ev
    by (simp add: warn_def cong: sum.case_cong option.case_cong prod.case_cong)
qed

text \<open>
  C8: an event without an origin adds the warning
  \<^verbatim>\<open>Skip writing events with missing origin\<close> and nothing else, and the loop goes on
  with the remaining events.  An event with an origin and without a magnitude is
  written as the same event with the one magnitude 0.0 is, after the warning
  \<^verbatim>\<open>Missing magnitude will be set to 0.0\<close>: the missing magnitude raises nothing, and
  when the event is written its header line carries the magnitude 0.0.
\<close>

theorem write_events_missing_data:
  "(origins e = [] \<longrightarrow>
      write_events L (e # es) w =
        write_events L es (warn ''Skip writing events with missing origin'' w)) \<and>
   (origins e \<noteq> [] \<and> magnitudes e = [] \<longrightarrow>
      write_events L (e # es) w =
        write_events L (e\<lparr>magnitudes := [\<lparr>m_resource_id = rid, mag = Some 0\<rparr>]\<rparr> # es)
          (warn ''Missing magnitude will be set to 0.0'' w) \<and>
      (\<forall>w'. write_event L e w = Inr w' \<longrightarrow>
         (\<exists>otime lat lon dp he ve rms evid pls.
            w_lines w' = w_lines w @ PHA1 otime lat lon dp (Some 0) he ve rms evid # pls \<and>
            warnings w' = warnings w @ [''Missing magnitude will be set to 0.0''])))"
proof (intro conjI impI allI)
  assume "origins e = []"
  from write_event_skip[OF resolve_origin_none[OF this]]
  show "write_events L (e # es) w =
          write_events L es (warn ''Skip writing events with missing origin'' w)"
    by simp
next
  assume a: "origins e \<noteq> [] \<and> magnitudes e = []"
  then show "write_events L (e # es) w =
        write_events L (e\<lparr>magnitudes := [\<lparr>m_resource_id = rid, mag = Some 0\<rparr>]\<rparr> # es)
          (warn ''Missing magnitude will be set to 0.0'' w)"
    using write_event_synthesized[of e L w rid] by simp
next
  fix w'
  assume a: "origins e \<noteq> [] \<and> magnitudes e = []" and run: "write_event L e w = Inr w'"
  from a resolve_origin_some obtain ori where ori: "resolve_origin e = Inr ori" by blast
  from a have sm: "synth_mag e = Some 0"
    "synth_warnings e = [''Missing magnitude will be set to 0.0'']"
    by (simp_all add: synth_mag_def synth_warnings_def resolve_magnitude_none)
  from write_event_written[OF run ori] sm
  obtain hdr pls where lines: "w_lines w' = w_lines w @ hdr # pls"
    and mg: "line_mag hdr = [Some 0]"
    and ws: "warnings w' = warnings w @ [''Missing magnitude will be set to 0.0'']"
    by auto
  from mg obtain otime lat lon dp he ve rms evid
    where "hdr = PHA1 otime lat lon dp (Some 0) he ve rms evid"
    by (cases hdr) simp_all
  with lines ws
  show "\<exists>otime lat lon dp he ve rms evid pls.
          w_lines w' = w_lines w @ PHA1 otime lat lon dp (Some 0) he ve rms evid # pls \<and>
          warnings w' = warnings w @ [''Missing magnitude will be set to 0.0'']"
    by blast
qed

text \<open>
  A catalog of an event without origins and an event without magnitudes: one header
  line, with magnitude 0.0, and the two warnings.
\<close>

lemma station_example:
  "station_code plain_lib ''.STA1..Z'' = Some ''STA1''"
  "utc_sub plain_lib a b = a - b"
  by (simp_all add: plain_lib_def plain_station_def)

lemma write_event_example:
  "write_event plain_lib
     ((written_event ''smi:local/event/8'')
        \<lparr>magnitudes := [\<lparr>m_resource_id = ''smi:local/magnitude/1'', mag = Some 0\<rparr>]\<rparr>)
     (warn ''Missing magnitude will be set to 0.0''
        (warn ''Skip writing events with missing origin'' empty_writer)) =
   Inr \<lparr>w_lines = [PHA1 979545900 40 (Some (- 120)) 5 (Some 0) 0 (1 / 2) (1 / 10) ''8'',
                    PHA2 (Some ''STA1'') (2469 / 2000) (Some 1) (Some ''P'')],
        warnings = [''Skip writing events with missing origin'',
                    ''Missing magnitude will be set to 0.0''],
        w_session = \<lparr>eventid_map = [], used_ids = {|''8''|}, counter = 1000\<rparr>,
        w_map = VDict []\<rparr>"
  by (simp add: written_event_def empty_writer_def initial_session_def write_defs
      example_event_def id_defs station_example Let_def)

theorem write_events_missing_data_witness:
  "write_events plain_lib
     [(written_event ''smi:local/event/7'')\<lparr>origins := []\<rparr>,
      (written_event ''smi:local/event/8'')\<lparr>magnitudes := []\<rparr>] empty_writer =
   Inr \<lparr>w_lines = [PHA1 979545900 40 (Some (- 120)) 5 (Some 0) 0 (1 / 2) (1 / 10) ''8'',
                    PHA2 (Some ''STA1'') (2469 / 2000) (Some 1) (Some ''P'')],
        warnings = [''Skip writing events with missing origin'',
                    ''Missing magnitude will be set to 0.0''],
        w_session = \<lparr>eventid_map = [], used_ids = {|''8''|}, counter = 1000\<rparr>,
        w_map = VDict []\<rparr>"
proof -
  let ?e7 = "(written_event ''smi:local/event/7'')\<lparr>origins := []\<rparr>"
  let ?e8 = "(written_event ''smi:local/event/8'')\<lparr>magnitudes := []\<rparr>"
  let ?w1 = "warn ''Skip writing events with missing origin'' empty_writer"
  have "origins ?e7 = []" by simp
  with write_events_missing_data[of ?e7 plain_lib "[?e8]" empty_writer]
  have skip: "write_events plain_lib [?e7, ?e8] empty_writer = write_events plain_lib [?e8] ?w1"
    by blast
  have "origins ?e8 \<noteq> [] \<and> magnitudes ?e8 = []"
    by (simp add: written_event_def example_event_def)
  with write_events_missing_data[of ?e8 plain_lib "[]" ?w1 "''smi:local/magnitude/1''"]
  have synth: "write_events plain_lib [?e8] ?w1 =
      write_events plain_lib
        [?e8\<lparr>magnitudes := [\<lparr>m_resource_id = ''smi:local/magnitude/1'', mag = Some 0\<rparr>]\<rparr>]
        (warn ''Missing magnitude will be set to 0.0'' ?w1)"
    by blast
  show ?thesis
    unfolding skip synth by (simp add: write_event_example)
qed

section \<open>The value returned by the writer (C9)\<close>















section \<open>The dict of the caller (C10)\<close>

lemma read_pha_store:
  "snd (read_pha L fs st filename seed_map id_default ph2comp mref) =
     (case mref of None \<Rightarrow> st | Some a \<Rightarrow> st @ [invert_dict (st ! a)])"
  by (cases mref; cases "fs filename") (simp_all add: read_pha_def)

lemma read_pha_catalog:
  "fst (read_pha L fs st filename seed_map id_default ph2comp mref) =
     (case fs filename of
        None \<Rightarrow> Inl FileNotFoundError
      | Some content \<Rightarrow>
          blocks2events L (tl (split_on CHR ''#'' content)) seed_map id_default ph2comp
            (map_option (\<lambda>a. invert_dict (st ! a)) mref) 0)"
  by (cases mref; cases "fs filename") (simp_all add: read_pha_def)

text \<open>
  C10: a call of \<^verbatim>\<open>_read_pha\<close> with the dict at address \<open>a\<close> as \<^verbatim>\<open>eventid_map\<close>
  leaves that dict as it was: the store after the call is the store before it with one
  new dict at its end, the inverted one, and the blocks are read with that new dict.
\<close>

theorem read_pha_keeps_caller_dict:
  assumes "a < length st"
  shows "snd (read_pha L fs st filename seed_map id_default ph2comp (Some a)) ! a = st ! a \<and>
         snd (read_pha L fs st filename seed_map id_default ph2comp (Some a)) =
           st @ [invert_dict (st ! a)] \<and>
         fst (read_pha L fs st filename seed_map id_default ph2comp (Some a)) =
           (case fs filename of
              None \<Rightarrow> Inl FileNotFoundError
            | Some content \<Rightarrow>
                blocks2events L (tl (split_on CHR ''#'' content)) seed_map id_default ph2comp
                  (Some (invert_dict (st ! a))) 0)"
  using assms
  by (simp add: read_pha_store read_pha_catalog nth_append cong: option.case_cong)

text \<open>
  The inverted dict maps a value to a key it had in the given dict, and, when no value
  occurs twice, every value to its key.
\<close>

lemma invert_dict_snoc: "invert_dict (d @ [(k, v)]) = AList.update v k (invert_dict d)"
  by (simp add: invert_dict_def)

lemma invert_dict_sound: "map_of (invert_dict d) v = Some k \<Longrightarrow> (k, v) \<in> set d"
proof (induction d arbitrary: v k rule: rev_induct)
  case Nil
  then show ?case by (simp add: invert_dict_def)
next
  case (snoc p d)
  obtain k' v' where p: "p = (k', v')" by (cases p)
  show ?case
  proof (cases "v = v'")
    case True
    with snoc.prems p have "k = k'" by (simp add: invert_dict_snoc update_conv')
    with True p show ?thesis by simp
  next
    case False
    with snoc.prems p have "map_of (invert_dict d) v = Some k"
      by (simp add: invert_dict_snoc update_conv')
    from snoc.IH[OF this] show ?thesis by simp
  qed
qed

lemma invert_dict_complete:
  "distinct (map snd d) \<Longrightarrow> (k, v) \<in> set d \<Longrightarrow> map_of (invert_dict d) v = Some k"
proof (induction d rule: rev_induct)
  case Nil
  then show ?case by simp
next
  case (snoc p d)
  obtain k' v' where p: "p = (k', v')" by (cases p)
  from snoc.prems(1) p have dist: "distinct (map snd d)" and fresh: "v' \<notin> snd ` set d"
    by auto
  show ?case
  proof (cases "(k, v) \<in> set d")
    case True
    with fresh have "v \<noteq> v'" by force
    with snoc.IH[OF dist True] p show ?thesis
      by (simp add: invert_dict_snoc update_conv')
  next
    case False
    with snoc.prems(2) p have "k = k'" "v = v'" by auto
    with p show ?thesis by (simp add: invert_dict_snoc update_conv')
  qed
qed

text \<open>
  The example file read with the table \<^verbatim>\<open>{'X': '12345'}\<close>: the event \<^verbatim>\<open>12345\<close> of the
  file becomes the event \<^verbatim>\<open>X\<close>, the table is unchanged, and the inverted table is new
  in the store.
\<close>

lemma example_blocks:
  "tl (split_on CHR ''#'' example_file) = [pha_block ''40.0'' ''2.5'' ''1.0'']"
  by code_simp

lemma block2event_example_mapped:
  "block2event plain_lib (pha_block ''40.0'' ''2.5'' ''1.0'') Map.empty ''.{}..{}''
       ph2comp_default (Some [(''12345'', ''X'')]) 0 =
     Inr (make_event ''X'' 979545900 1 (Some (1 / DEG2KM / cos (deg2rad 40))) (1 / 2)
            (1 / 10) [example_pick] [example_arrival] 40 (- 120) 5
            [\<lparr>m_resource_id = ''smi:local/magnitude/X'', mag = Some (5 / 2)\<rparr>]
            (Some ''smi:local/magnitude/X''), 1)"
proof -
  have low: "lower ''2.5'' = ''2.5''" by code_simp
  have mg: "read_magnitude plain_lib ''2.5'' ''X'' =
     Inr ([\<lparr>m_resource_id = ''smi:local/magnitude/X'', mag = Some (5 / 2)\<rparr>],
          Some ''smi:local/magnitude/X'')"
    by (simp add: read_magnitude_def low example_floats bind_err_def)
  show ?thesis
    by (simp add: block2event_def example_lines(1) example_tokens example_ints
        example_floats example_time example_lonerr example_picks mg
        bind_err_def Let_def del: read_picks.simps)
qed

lemma read_pha_example:
  "fst (read_pha plain_lib example_fs [[(''X'', ''12345'')]] ''events.pha'' Map.empty
          ''.{}..{}'' ph2comp_default (Some 0)) =
     Inr [make_event ''X'' 979545900 1 (Some (1 / DEG2KM / cos (deg2rad 40))) (1 / 2)
            (1 / 10) [example_pick] [example_arrival] 40 (- 120) 5
            [\<lparr>m_resource_id = ''smi:local/magnitude/X'', mag = Some (5 / 2)\<rparr>]
            (Some ''smi:local/magnitude/X'')]"
  by (simp add: read_pha_catalog example_fs_def example_blocks invert_dict_def
      block2event_example_mapped)

theorem read_pha_keeps_caller_dict_witness:
  "snd (read_pha plain_lib example_fs [[(''X'', ''12345'')]] ''events.pha'' Map.empty
          ''.{}..{}'' ph2comp_default (Some 0)) ! 0 = [(''X'', ''12345'')] \<and>
   snd (read_pha plain_lib example_fs [[(''X'', ''12345'')]] ''events.pha'' Map.empty
          ''.{}..{}'' ph2comp_default (Some 0)) ! 1 = [(''12345'', ''X'')]"
  using read_pha_keeps_caller_dict[of 0 "[[(''X'', ''12345'')]]" plain_lib example_fs
      "''events.pha''" Map.empty "''.{}..{}''" ph2comp_default]
  by (simp add: invert_dict_def)

end
